theory Spec2Isabelle
  imports Main "HOL-Library.Word"
begin

unbundle bit_operations_syntax

section \<open>Values of the program\<close>

text \<open>
  The repository is one Go function, \<^verbatim>\<open>main\<close> of \<^verbatim>\<open>main.go\<close>. It calls the operating
  system and the libp2p libraries; what those calls return is not decided by the
  repository, so every such call is a field of the record \<open>world\<close> below and
  \<open>main\<close> is a function of the world it runs in.
\<close>

type_synonym bytes = "8 word list"
type_synonym FileMode = "32 word"  \<comment> \<open>\<^verbatim>\<open>os.FileMode\<close>, a \<^verbatim>\<open>uint32\<close>\<close>
type_synonym Duration = "64 word"  \<comment> \<open>\<^verbatim>\<open>time.Duration\<close>, an \<^verbatim>\<open>int64\<close> of nanoseconds\<close>
type_synonym go_int = "64 word"    \<comment> \<open>Go's \<^verbatim>\<open>int\<close>, read with \<open>sint\<close>\<close>

text \<open>A non-nil Go \<^verbatim>\<open>error\<close>; \<^verbatim>\<open>nil\<close> is \<open>None\<close> of \<open>error option\<close>.\<close>

datatype error = ErrNotExist | ErrPermission | ErrOther string

datatype KeyType = RSA | Ed25519 | Secp256k1 | ECDSA

datatype PrivKey = PrivKey KeyType bytes

datatype Host = Host (host_ID: string) (host_Addrs: "string list")

datatype AddrInfo = AddrInfo (info_ID: string) (info_Addrs: "string list")

datatype Multiaddr = Multiaddr string

datatype SecurityTransport = TLS

datatype TransportKind = QUIC | DefaultTransports

datatype RoutingKind = KadDHT

text \<open>The options handed to \<^verbatim>\<open>libp2p.New\<close> (lines 78 to 110), one field per option.\<close>

record Config =
  Identity :: PrivKey
  ListenAddrStrings :: "string list"
  Security :: SecurityTransport
  Transport :: "TransportKind list"
  ConnectionManager :: "int \<times> int \<times> Duration"
  NATPortMap :: bool
  Routing :: RoutingKind
  EnableAutoRelay :: bool

section \<open>Constants of the standard library\<close>

text \<open>\<^verbatim>\<open>os.ModePerm\<close> is octal 0777: the nine permission bits, \<^verbatim>\<open>rwxrwxrwx\<close>.\<close>

definition os_ModePerm :: FileMode where
  "os_ModePerm = 7 * 64 + 7 * 8 + 7"

definition time_Second :: Duration where
  "time_Second = 1000000000"

definition time_Minute :: Duration where
  "time_Minute = 60 * time_Second"

text \<open>\<^verbatim>\<open>os.IsNotExist\<close>: false on \<^verbatim>\<open>nil\<close>, true on the error of a missing file.\<close>

definition os_IsNotExist :: "error option \<Rightarrow> bool" where
  "os_IsNotExist e = (e = Some ErrNotExist)"

text \<open>
  \<^verbatim>\<open>filepath.Join(dir, name)\<close> for a directory as \<^verbatim>\<open>filepath.Abs\<close> returns it
  (cleaned, so without a trailing separator unless it is the root).
\<close>

definition filepath_Join :: "string \<Rightarrow> string \<Rightarrow> string" where
  "filepath_Join dir name = (if dir = ''/'' then dir @ name else dir @ ''/'' @ name)"

subsection \<open>Decimal printing and \<^verbatim>\<open>fmt.Sprint\<close>\<close>

definition digit :: "nat \<Rightarrow> char" where
  "digit d = ''0123456789'' ! d"

fun formatUint :: "nat \<Rightarrow> string" where
  "formatUint n = (if n < 10 then [digit n] else formatUint (n div 10) @ [digit (n mod 10)])"

declare formatUint.simps [simp del]

definition formatInt :: "int \<Rightarrow> string" where
  "formatInt i = (if i < 0 then CHR ''-'' # formatUint (nat (- i)) else formatUint (nat i))"

text \<open>The operands \<^verbatim>\<open>main\<close> passes to \<^verbatim>\<open>fmt.Sprint\<close>: strings and the port.\<close>

datatype operand = S string | I go_int

fun isString :: "operand \<Rightarrow> bool" where
  "isString (S _) = True"
| "isString (I _) = False"

fun printArg :: "operand \<Rightarrow> string" where
  "printArg (S s) = s"
| "printArg (I i) = formatInt (sint i)"

text \<open>
  \<^verbatim>\<open>fmt.Sprint\<close> prints its operands in order and adds a space between two operands when
  neither is a string. The first argument of \<open>doPrint\<close> is whether an operand was
  printed before, the second whether that operand was a string.
\<close>

fun doPrint :: "bool \<Rightarrow> bool \<Rightarrow> operand list \<Rightarrow> string" where
  "doPrint started prevString [] = []"
| "doPrint started prevString (a # as) =
     (if started \<and> \<not> isString a \<and> \<not> prevString then '' '' else []) @
     printArg a @ doPrint True (isString a) as"

definition fmt_Sprint :: "operand list \<Rightarrow> string" where
  "fmt_Sprint as = doPrint False False as"

section \<open>The world and the trace of a run\<close>

text \<open>
  Each field is what one call of \<^verbatim>\<open>main\<close> returns in this run: a value or an error
  (\<open>Inl\<close> the error), or only an error (\<open>None\<close> is \<^verbatim>\<open>nil\<close>).
\<close>

record world =
  filepath_Abs_Dir :: "error + string"  \<comment> \<open>\<^verbatim>\<open>filepath.Abs(filepath.Dir(os.Args[0]))\<close>\<close>
  os_Stat :: "string \<Rightarrow> error option"
  crypto_GenerateKeyPair :: "KeyType \<Rightarrow> int \<Rightarrow> error + PrivKey"
  crypto_MarshalPrivateKey :: "PrivKey \<Rightarrow> error + bytes"
  ioutil_WriteFile :: "string \<Rightarrow> bytes \<Rightarrow> FileMode \<Rightarrow> error option"
  ioutil_ReadFile :: "string \<Rightarrow> error + bytes"
  crypto_UnmarshalPrivateKey :: "bytes \<Rightarrow> error + PrivKey"
  libp2p_New :: "Config \<Rightarrow> error + Host"
  peer_AddrInfoToP2pAddrs :: "AddrInfo \<Rightarrow> error + string list"
  autonat_New :: "Host \<Rightarrow> error option"
  multiaddr_NewMultiaddr :: "string \<Rightarrow> error + Multiaddr"
  peer_AddrInfoFromP2pAddr :: "Multiaddr \<Rightarrow> error + AddrInfo"
  host_Connect :: "Host \<Rightarrow> Duration \<Rightarrow> AddrInfo \<Rightarrow> error option"

datatype call =
    Abs_Dir
  | Stat string
  | GenerateKeyPair KeyType int
  | MarshalPrivateKey PrivKey
  | WriteFile string bytes FileMode
  | ReadFile string
  | UnmarshalPrivateKey bytes
  | New Config
  | AddrInfoToP2pAddrs AddrInfo
  | AutonatNew Host
  | NewMultiaddr string
  | AddrInfoFromP2pAddr Multiaddr
  | Connect Host Duration AddrInfo

text \<open>
  The lines \<^verbatim>\<open>main\<close> logs: the start line with the port (line 33), the node's own
  addresses (line 118), the number of peers (line 150), the signal (line 160).
\<close>

datatype log_line =
    LogStart go_int
  | LogMyAddrs "string list"
  | LogPeerCount nat
  | LogSignal

text \<open>
  What a run does, in order: a call with the error it returned, a line logged,
  \<^verbatim>\<open>log.Fatalln\<close> of an error, and the start of the reporting goroutine with the period
  of its ticker.
\<close>

datatype event =
    Call call "error option"
  | Println log_line
  | Fatalln error
  | Go Duration

text \<open>
  \<^verbatim>\<open>log.Fatalln\<close> ends the process with status 1. A run that passes every step stays
  in \<open>Running\<close>: the goroutine reports and \<^verbatim>\<open>main\<close> waits for a signal.
\<close>

datatype outcome = Exited nat | Running Host

type_synonym run = "event list \<times> outcome"

definition emit :: "event \<Rightarrow> run \<Rightarrow> run" where
  "emit ev r = (ev # fst r, snd r)"

definition fatal :: "error \<Rightarrow> run" where
  "fatal e = ([Fatalln e], Exited 1)"

text \<open>
  The idiom \<^verbatim>\<open>x, e := f(...); if e != nil { log.Fatalln(e) }\<close>: the call is recorded with
  its error, an error ends the run, a value goes to the rest of \<^verbatim>\<open>main\<close>.
\<close>

definition checked :: "call \<Rightarrow> error + 'a \<Rightarrow> ('a \<Rightarrow> run) \<Rightarrow> run" where
  "checked c r k =
     (case r of
        Inl e \<Rightarrow> emit (Call c (Some e)) (fatal e)
      | Inr x \<Rightarrow> emit (Call c None) (k x))"

definition nil_or :: "error option \<Rightarrow> error + unit" where
  "nil_or e = (case e of None \<Rightarrow> Inr () | Some x \<Rightarrow> Inl x)"

section \<open>\<^verbatim>\<open>main\<close>\<close>

text \<open>\<^verbatim>\<open>flag.Int("port", 6666, "port")\<close> after \<^verbatim>\<open>flag.Parse()\<close>: the flag's value, or the default.\<close>

definition flag_Int :: "go_int \<Rightarrow> go_int option \<Rightarrow> go_int" where
  "flag_Int dflt given = (case given of None \<Rightarrow> dflt | Some p \<Rightarrow> p)"

definition bootstrap_addr :: string where
  "bootstrap_addr = ''/ip4/104.131.131.82/tcp/4001/p2p/QmaCpDMGvV2BGHeYERUEnRQAwe3N8SzbUtfsmvsqQLuvuJ''"

text \<open>Lines 78 to 110: the options of the node.\<close>

definition node_config :: "go_int \<Rightarrow> PrivKey \<Rightarrow> Config" where
  "node_config port privateKey =
     \<lparr> Identity = privateKey,
       ListenAddrStrings =
         [ fmt_Sprint [S ''/ip4/0.0.0.0/tcp/'', I port],
           fmt_Sprint [S ''/ip4/0.0.0.0/udp/'', I port, S ''/quic''] ],
       Security = TLS,
       Transport = [QUIC, DefaultTransports],
       ConnectionManager = (100, 400, time_Minute),
       NATPortMap = True,
       Routing = KadDHT,
       EnableAutoRelay = True \<rparr>"

text \<open>Lines 77 to 154: from the construction of the node to the reporting goroutine.\<close>

definition start_node :: "world \<Rightarrow> go_int \<Rightarrow> PrivKey \<Rightarrow> run" where
  "start_node w port privateKey =
     checked (New (node_config port privateKey)) (libp2p_New w (node_config port privateKey)) (\<lambda>h.
     checked (AddrInfoToP2pAddrs (AddrInfo (host_ID h) (host_Addrs h)))
       (peer_AddrInfoToP2pAddrs w (AddrInfo (host_ID h) (host_Addrs h))) (\<lambda>myAddrs.
     emit (Println (LogMyAddrs myAddrs)) (
     checked (AutonatNew h) (nil_or (autonat_New w h)) (\<lambda>_.
     checked (NewMultiaddr bootstrap_addr) (multiaddr_NewMultiaddr w bootstrap_addr) (\<lambda>multiAddr.
     checked (AddrInfoFromP2pAddr multiAddr) (peer_AddrInfoFromP2pAddr w multiAddr) (\<lambda>addrInfo.
     checked (Connect h (time_Second * 16) addrInfo)
       (nil_or (host_Connect w h (time_Second * 16) addrInfo)) (\<lambda>_.
     emit (Go (time_Second * 10)) ([], Running h))))))))"

text \<open>Lines 45 to 75: the private key is generated and stored, or read.\<close>

definition resolve_key :: "world \<Rightarrow> string \<Rightarrow> (PrivKey \<Rightarrow> run) \<Rightarrow> run" where
  "resolve_key w dir k =
     (let privateKeyPath = filepath_Join dir ''private.key'';
          e = os_Stat w privateKeyPath
      in emit (Call (Stat privateKeyPath) e)
          (if os_IsNotExist e then
             checked (GenerateKeyPair Ed25519 (- 1)) (crypto_GenerateKeyPair w Ed25519 (- 1)) (\<lambda>privateKey.
             checked (MarshalPrivateKey privateKey) (crypto_MarshalPrivateKey w privateKey) (\<lambda>privateKeyBytes.
             checked (WriteFile privateKeyPath privateKeyBytes os_ModePerm)
               (nil_or (ioutil_WriteFile w privateKeyPath privateKeyBytes os_ModePerm)) (\<lambda>_.
             k privateKey)))
           else
             checked (ReadFile privateKeyPath) (ioutil_ReadFile w privateKeyPath) (\<lambda>privateKeyBytes.
             checked (UnmarshalPrivateKey privateKeyBytes) (crypto_UnmarshalPrivateKey w privateKeyBytes) (\<lambda>privateKey.
             k privateKey))))"

text \<open>The whole of \<^verbatim>\<open>main\<close> up to the wait for a signal (line 159).\<close>

definition main :: "world \<Rightarrow> go_int option \<Rightarrow> run" where
  "main w given =
     (let port = flag_Int 6666 given
      in emit (Println (LogStart port)) (
         checked Abs_Dir (filepath_Abs_Dir w) (\<lambda>dir.
         resolve_key w dir (\<lambda>privateKey.
         start_node w port privateKey))))"



text \<open>Lines 156 to 161: the signal arrives, a line is logged and \<^verbatim>\<open>main\<close> returns.\<close>

definition on_signal :: "run \<Rightarrow> run" where
  "on_signal r =
     (case snd r of
        Running h \<Rightarrow> (fst r @ [Println LogSignal], Exited 0)
      | Exited n \<Rightarrow> r)"

section \<open>Reading a trace\<close>

text \<open>The calls that returned an error, in order.\<close>

fun failed :: "event list \<Rightarrow> (call \<times> error) list" where
  "failed [] = []"
| "failed (Call c (Some e) # t) = (c, e) # failed t"
| "failed (Call c None # t) = failed t"
| "failed (Println l # t) = failed t"
| "failed (Fatalln e # t) = failed t"
| "failed (Go d # t) = failed t"

text \<open>The periods of the tickers of the goroutines started.\<close>

fun started :: "event list \<Rightarrow> Duration list" where
  "started [] = []"
| "started (Go d # t) = d # started t"
| "started (Call c r # t) = started t"
| "started (Println l # t) = started t"
| "started (Fatalln e # t) = started t"

text \<open>The private keys given to \<^verbatim>\<open>libp2p.New\<close> as the identity of the node.\<close>

fun identities :: "event list \<Rightarrow> PrivKey list" where
  "identities [] = []"
| "identities (Call (New c) r # t) = Identity c # identities t"
| "identities (ev # t) = identities t"

text \<open>
  The files a run leaves behind: the content of each \<^verbatim>\<open>ioutil.WriteFile\<close> that returned
  \<^verbatim>\<open>nil\<close>, a later write of a path replacing an earlier one.
\<close>

fun written :: "event list \<Rightarrow> (string \<rightharpoonup> bytes) \<Rightarrow> (string \<rightharpoonup> bytes)" where
  "written [] fs = fs"
| "written (Call (WriteFile p b m) None # t) fs = written t (fs(p \<mapsto> b))"
| "written (ev # t) fs = written t fs"

definition is_Stat :: "call \<Rightarrow> bool" where
  "is_Stat c = (case c of Stat p \<Rightarrow> True | _ \<Rightarrow> False)"

definition err_of :: "error + 'a \<Rightarrow> error option" where
  "err_of r = (case r of Inl e \<Rightarrow> Some e | Inr x \<Rightarrow> None)"

text \<open>
  Owner-only permissions, as the specification asks for the key file: no permission
  bit of the group or of others (octal 077) is set.
\<close>

definition owner_only :: "FileMode \<Rightarrow> bool" where
  "owner_only m = (m AND (7 * 8 + 7) = 0)"

text \<open>Reading a decimal numeral back, to say which port an address names.\<close>

definition digit_val :: "char \<Rightarrow> nat" where
  "digit_val c = of_char c - 48"

definition parseUint :: "string \<Rightarrow> nat" where
  "parseUint s = foldl (\<lambda>a c. 10 * a + digit_val c) 0 s"

definition parseInt :: "string \<Rightarrow> int" where
  "parseInt s = (case s of
                   [] \<Rightarrow> 0
                 | c # cs \<Rightarrow> if c = CHR ''-'' then - int (parseUint cs) else int (parseUint s))"

section \<open>Properties of runs\<close>

text \<open>
  An event that does not end the run: a line logged, a call that returned \<^verbatim>\<open>nil\<close>, and
  \<^verbatim>\<open>os.Stat\<close> whatever it returned (its error is only tested with \<^verbatim>\<open>os.IsNotExist\<close>).
\<close>

definition benign :: "event \<Rightarrow> bool" where
  "benign ev = (case ev of
       Call (Stat p) r \<Rightarrow> True
     | Call c None \<Rightarrow> True
     | Call c (Some e) \<Rightarrow> False
     | Println l \<Rightarrow> True
     | Fatalln e \<Rightarrow> False
     | Go d \<Rightarrow> False)"

text \<open>
  The run ended in \<^verbatim>\<open>log.Fatalln\<close> of the error \<open>e\<close> that the call \<open>c\<close> returned: the last
  two events are that call and the fatal log line, the exit status is 1, and the
  reporting goroutine was never started.
\<close>

definition dies_on :: "call \<Rightarrow> error \<Rightarrow> run \<Rightarrow> bool" where
  "dies_on c e r =
     (snd r = Exited 1 \<and> take 2 (rev (fst r)) = [Fatalln e, Call c (Some e)] \<and> started (fst r) = [])"

text \<open>The failed calls other than \<^verbatim>\<open>os.Stat\<close>.\<close>

fun strict_failed :: "event list \<Rightarrow> (call \<times> error) list" where
  "strict_failed t = filter (\<lambda>x. \<not> is_Stat (fst x)) (failed t)"

text \<open>
  A run is settled when it either died on its one failed call, or is running with no
  failed call, the goroutine started once and the bootstrap peer connected.
\<close>

definition settled :: "run \<Rightarrow> bool" where
  "settled r =
     ((snd r = Exited 1 \<and> started (fst r) = [] \<and>
        (\<exists>c e. strict_failed (fst r) = [(c, e)] \<and> take 2 (rev (fst r)) = [Fatalln e, Call c (Some e)]))
      \<or> (\<exists>h. snd r = Running h \<and> strict_failed (fst r) = [] \<and>
             started (fst r) = [time_Second * 10] \<and>
             (\<exists>a. Call (Connect h (time_Second * 16) a) None \<in> set (fst r))))"

text \<open>The key that \<^verbatim>\<open>main\<close> holds after lines 45 to 75, in a world and for a key path.\<close>

definition key_resolved :: "world \<Rightarrow> string \<Rightarrow> PrivKey \<Rightarrow> bool" where
  "key_resolved w path k =
     (if os_IsNotExist (os_Stat w path)
      then crypto_GenerateKeyPair w Ed25519 (- 1) = Inr k \<and>
           (\<exists>b. crypto_MarshalPrivateKey w k = Inr b \<and> ioutil_WriteFile w path b os_ModePerm = None)
      else \<exists>b. ioutil_ReadFile w path = Inr b \<and> crypto_UnmarshalPrivateKey w b = Inr k)"

text \<open>
  The events \<^verbatim>\<open>main\<close> can produce in a world, for a port and a key path: each call with
  the arguments the source gives it, under the branch condition the source puts it
  under, and with the error the world returns for it.
\<close>

fun may_emit :: "world \<Rightarrow> go_int \<Rightarrow> string \<Rightarrow> event \<Rightarrow> bool" where
  "may_emit w port path (Call Abs_Dir r) = (r = err_of (filepath_Abs_Dir w))"
| "may_emit w port path (Call (Stat p) r) = (p = path \<and> r = os_Stat w path)"
| "may_emit w port path (Call (GenerateKeyPair t n) r) =
     (os_IsNotExist (os_Stat w path) \<and> t = Ed25519 \<and> n = - 1 \<and>
      r = err_of (crypto_GenerateKeyPair w Ed25519 (- 1)))"
| "may_emit w port path (Call (MarshalPrivateKey k) r) =
     (os_IsNotExist (os_Stat w path) \<and> crypto_GenerateKeyPair w Ed25519 (- 1) = Inr k \<and>
      r = err_of (crypto_MarshalPrivateKey w k))"
| "may_emit w port path (Call (WriteFile p b m) r) =
     (os_IsNotExist (os_Stat w path) \<and> p = path \<and> m = os_ModePerm \<and>
      (\<exists>k. crypto_GenerateKeyPair w Ed25519 (- 1) = Inr k \<and> crypto_MarshalPrivateKey w k = Inr b) \<and>
      r = ioutil_WriteFile w path b os_ModePerm)"
| "may_emit w port path (Call (ReadFile p) r) =
     (\<not> os_IsNotExist (os_Stat w path) \<and> p = path \<and> r = err_of (ioutil_ReadFile w path))"
| "may_emit w port path (Call (UnmarshalPrivateKey b) r) =
     (\<not> os_IsNotExist (os_Stat w path) \<and> ioutil_ReadFile w path = Inr b \<and>
      r = err_of (crypto_UnmarshalPrivateKey w b))"
| "may_emit w port path (Call (New c) r) =
     ((\<exists>k. c = node_config port k \<and> key_resolved w path k) \<and> r = err_of (libp2p_New w c))"
| "may_emit w port path (Call (AddrInfoToP2pAddrs a) r) = (r = err_of (peer_AddrInfoToP2pAddrs w a))"
| "may_emit w port path (Call (AutonatNew h) r) = (r = autonat_New w h)"
| "may_emit w port path (Call (NewMultiaddr s) r) =
     (s = bootstrap_addr \<and> r = err_of (multiaddr_NewMultiaddr w s))"
| "may_emit w port path (Call (AddrInfoFromP2pAddr ma) r) =
     (multiaddr_NewMultiaddr w bootstrap_addr = Inr ma \<and> r = err_of (peer_AddrInfoFromP2pAddr w ma))"
| "may_emit w port path (Call (Connect h d a) r) =
     (d = time_Second * 16 \<and> r = host_Connect w h d a)"
| "may_emit w port path (Println (LogStart p)) = (p = port)"
| "may_emit w port path (Println (LogMyAddrs a)) = True"
| "may_emit w port path (Println (LogPeerCount n)) = False"
| "may_emit w port path (Println LogSignal) = False"
| "may_emit w port path (Fatalln e) = True"
| "may_emit w port path (Go d) = (d = time_Second * 10)"


section \<open>Sample worlds\<close>

definition sample_marshal :: "PrivKey \<Rightarrow> error + bytes" where
  "sample_marshal k = (case k of PrivKey t raw \<Rightarrow>
     Inr ((case t of RSA \<Rightarrow> 0 | Ed25519 \<Rightarrow> 1 | Secp256k1 \<Rightarrow> 2 | ECDSA \<Rightarrow> 3) # raw))"

definition sample_unmarshal :: "bytes \<Rightarrow> error + PrivKey" where
  "sample_unmarshal bs = (case bs of
       [] \<Rightarrow> Inl (ErrOther ''short buffer'')
     | t # raw \<Rightarrow>
         if t = 0 then Inr (PrivKey RSA raw)
         else if t = 1 then Inr (PrivKey Ed25519 raw)
         else if t = 2 then Inr (PrivKey Secp256k1 raw)
         else if t = 3 then Inr (PrivKey ECDSA raw)
         else Inl (ErrOther ''bad key type''))"

text \<open>No key file yet, and every call succeeds.\<close>

definition world_fresh :: world where
  "world_fresh =
     \<lparr> filepath_Abs_Dir = Inr ''/opt/node'',
       os_Stat = (\<lambda>p. Some ErrNotExist),
       crypto_GenerateKeyPair = (\<lambda>t n. Inr (PrivKey t [7, 9])),
       crypto_MarshalPrivateKey = sample_marshal,
       ioutil_WriteFile = (\<lambda>p b m. None),
       ioutil_ReadFile = (\<lambda>p. Inl ErrNotExist),
       crypto_UnmarshalPrivateKey = sample_unmarshal,
       libp2p_New = (\<lambda>c. Inr (Host ''QmNode'' (ListenAddrStrings c))),
       peer_AddrInfoToP2pAddrs = (\<lambda>a. Inr (map (\<lambda>x. x @ ''/p2p/'' @ info_ID a) (info_Addrs a))),
       autonat_New = (\<lambda>h. None),
       multiaddr_NewMultiaddr = (\<lambda>s. Inr (Multiaddr s)),
       peer_AddrInfoFromP2pAddr = (\<lambda>m. Inr (AddrInfo ''QmBoot'' [''/ip4/104.131.131.82/tcp/4001''])),
       host_Connect = (\<lambda>h d a. None) \<rparr>"

text \<open>The next start in the same directory: the file written by \<open>world_fresh\<close> is there.\<close>

definition world_stored :: world where
  "world_stored =
     world_fresh
       \<lparr> os_Stat := (\<lambda>p. if p = ''/opt/node/private.key'' then None else Some ErrNotExist),
         ioutil_ReadFile :=
           (\<lambda>p. if p = ''/opt/node/private.key'' then Inr [1, 7, 9] else Inl ErrNotExist) \<rparr>"

text \<open>The key file is there and holds bytes that are no private key.\<close>

definition world_corrupt :: world where
  "world_corrupt = world_stored \<lparr> ioutil_ReadFile := (\<lambda>p. Inr [200, 7, 9]) \<rparr>"

text \<open>The directory of the key file cannot be searched: both calls are refused.\<close>

definition world_denied :: world where
  "world_denied =
     world_fresh
       \<lparr> os_Stat := (\<lambda>p. Some ErrPermission),
         ioutil_ReadFile := (\<lambda>p. Inl ErrPermission) \<rparr>"

text \<open>\<^verbatim>\<open>autonat.New\<close> fails.\<close>

definition world_no_autonat :: world where
  "world_no_autonat = world_fresh \<lparr> autonat_New := (\<lambda>h. Some (ErrOther ''autonat'')) \<rparr>"



definition sample_host :: Host where
  "sample_host = Host ''QmNode'' [''/ip4/0.0.0.0/tcp/6666'', ''/ip4/0.0.0.0/udp/6666/quic'']"


section \<open>Helper lemmas\<close>

subsection \<open>Printing\<close>

lemma doPrint_tcp: "fmt_Sprint [S a, I p] = a @ formatInt (sint p)"
  by (simp add: fmt_Sprint_def)

lemma doPrint_udp: "fmt_Sprint [S a, I p, S b] = a @ formatInt (sint p) @ b"
  by (simp add: fmt_Sprint_def)

lemma formatInt_6666: "formatInt 6666 = ''6666''"
  by (simp add: formatInt_def formatUint.simps digit_def)

lemma digit_cases: "d < 10 \<Longrightarrow> d \<in> {0, 1, 2, 3, 4, 5, 6, 7, 8, 9 :: nat}"
  by auto

lemma digit_val_digit: "d < 10 \<Longrightarrow> digit_val (digit d) = d"
  using digit_cases [of d] by (auto simp: digit_def digit_val_def)

lemma digit_not_minus: "d < 10 \<Longrightarrow> digit d \<noteq> CHR ''-''"
  using digit_cases [of d] by (auto simp: digit_def)

lemma formatUint_head: "\<exists>d cs. d < 10 \<and> formatUint n = digit d # cs"
proof (induction n rule: formatUint.induct)
  case (1 n)
  show ?case
  proof (cases "n < 10")
    case True
    then show ?thesis by (subst formatUint.simps) auto
  next
    case False
    with 1 obtain d cs where "d < 10" "formatUint (n div 10) = digit d # cs" by blast
    with False show ?thesis by (subst formatUint.simps) auto
  qed
qed

lemma parseUint_formatUint: "parseUint (formatUint n) = n"
proof (induction n rule: formatUint.induct)
  case (1 n)
  show ?case
  proof (cases "n < 10")
    case True
    then show ?thesis
      by (subst formatUint.simps) (simp add: parseUint_def digit_val_digit)
  next
    case False
    with 1 show ?thesis
      by (subst formatUint.simps) (simp add: parseUint_def digit_val_digit)
  qed
qed

lemma parseInt_formatInt: "parseInt (formatInt i) = i"
proof (cases "i < 0")
  case True
  then show ?thesis by (simp add: parseInt_def formatInt_def parseUint_formatUint)
next
  case False
  obtain d cs where d: "d < 10" "formatUint (nat i) = digit d # cs"
    using formatUint_head by blast
  have "parseUint (digit d # cs) = nat i"
    using parseUint_formatUint [of "nat i"] d by simp
  with False d show ?thesis
    by (simp add: parseInt_def formatInt_def digit_not_minus)
qed

subsection \<open>The runs of the sample worlds\<close>

lemma world_fresh_sel:
  "filepath_Abs_Dir world_fresh = Inr ''/opt/node''"
  "os_Stat world_fresh p = Some ErrNotExist"
  "crypto_GenerateKeyPair world_fresh t n = Inr (PrivKey t [7, 9])"
  "crypto_MarshalPrivateKey world_fresh = sample_marshal"
  "ioutil_WriteFile world_fresh p b m = None"
  "ioutil_ReadFile world_fresh p = Inl ErrNotExist"
  "crypto_UnmarshalPrivateKey world_fresh = sample_unmarshal"
  "libp2p_New world_fresh c = Inr (Host ''QmNode'' (ListenAddrStrings c))"
  "peer_AddrInfoToP2pAddrs world_fresh a = Inr (map (\<lambda>x. x @ ''/p2p/'' @ info_ID a) (info_Addrs a))"
  "autonat_New world_fresh h = None"
  "multiaddr_NewMultiaddr world_fresh s = Inr (Multiaddr s)"
  "peer_AddrInfoFromP2pAddr world_fresh ma = Inr (AddrInfo ''QmBoot'' [''/ip4/104.131.131.82/tcp/4001''])"
  "host_Connect world_fresh h d a = None"
  by (simp_all add: world_fresh_def)

lemma config_6666:
  "node_config 6666 k =
     \<lparr> Identity = k,
       ListenAddrStrings = [''/ip4/0.0.0.0/tcp/6666'', ''/ip4/0.0.0.0/udp/6666/quic''],
       Security = TLS, Transport = [QUIC, DefaultTransports],
       ConnectionManager = (100, 400, 60000000000), NATPortMap = True,
       Routing = KadDHT, EnableAutoRelay = True \<rparr>"
  by (simp add: node_config_def doPrint_tcp doPrint_udp formatInt_6666 time_Minute_def time_Second_def)

lemma key_path: "filepath_Join ''/opt/node'' ''private.key'' = ''/opt/node/private.key''"
  by (simp add: filepath_Join_def)


lemma main_fresh:
  "main world_fresh None =
     emit (Println (LogStart 6666)) (emit (Call Abs_Dir None) (
     emit (Call (Stat ''/opt/node/private.key'') (Some ErrNotExist)) (
     emit (Call (GenerateKeyPair Ed25519 (- 1)) None) (
     emit (Call (MarshalPrivateKey (PrivKey Ed25519 [7, 9])) None) (
     emit (Call (WriteFile ''/opt/node/private.key'' [1, 7, 9] 511) None) (
     start_node world_fresh 6666 (PrivKey Ed25519 [7, 9])))))))"
  by (simp add: main_def resolve_key_def checked_def nil_or_def flag_Int_def key_path os_IsNotExist_def
      world_fresh_sel sample_marshal_def os_ModePerm_def Let_def)

subsection \<open>Every run\<close>

lemma fst_emit [simp]: "fst (emit ev r) = ev # fst r"
  by (simp add: emit_def)

lemma snd_emit [simp]: "snd (emit ev r) = snd r"
  by (simp add: emit_def)

lemma fst_checked:
  "fst (checked c r k) =
     (case r of Inl e \<Rightarrow> [Call c (Some e), Fatalln e] | Inr v \<Rightarrow> Call c None # fst (k v))"
  by (simp add: checked_def fatal_def split: sum.splits)


lemma checked_Inl: "r = Inl e \<Longrightarrow> checked c r k = ([Call c (Some e), Fatalln e], Exited 1)"
  by (simp add: checked_def fatal_def emit_def)

lemma checked_Inr: "r = Inr v \<Longrightarrow> checked c r k = emit (Call c None) (k v)"
  by (simp add: checked_def)

lemma checked_cases:
  assumes "\<And>e. r = Inl e \<Longrightarrow> Q ([Call c (Some e), Fatalln e], Exited 1)"
    and "\<And>v. r = Inr v \<Longrightarrow> Q (emit (Call c None) (k v))"
  shows "Q (checked c r k)"
  using assms by (cases r) (simp_all add: checked_Inl checked_Inr)

lemma start_node_rule:
  assumes leaf: "\<And>c e. \<not> is_Stat c \<Longrightarrow> Q ([Call c (Some e), Fatalln e], Exited 1)"
    and step: "\<And>ev r. benign ev \<Longrightarrow> Q r \<Longrightarrow> Q (emit ev r)"
    and final: "\<And>h a. Q ([Call (Connect h (time_Second * 16) a) None, Go (time_Second * 10)], Running h)"
  shows "Q (start_node w port key)"
  unfolding start_node_def
  apply (rule checked_cases, rule leaf, simp add: is_Stat_def)
  apply (rule step, simp add: benign_def)
  apply (rule checked_cases, rule leaf, simp add: is_Stat_def)
  apply (rule step, simp add: benign_def)
  apply (rule step, simp add: benign_def)
  apply (rule checked_cases, rule leaf, simp add: is_Stat_def)
  apply (rule step, simp add: benign_def)
  apply (rule checked_cases, rule leaf, simp add: is_Stat_def)
  apply (rule step, simp add: benign_def)
  apply (rule checked_cases, rule leaf, simp add: is_Stat_def)
  apply (rule step, simp add: benign_def)
  apply (rule checked_cases, rule leaf, simp add: is_Stat_def)
  apply (simp add: emit_def final)
  done

lemma resolve_key_rule:
  assumes leaf: "\<And>c e. \<not> is_Stat c \<Longrightarrow> Q ([Call c (Some e), Fatalln e], Exited 1)"
    and step: "\<And>ev r. benign ev \<Longrightarrow> Q r \<Longrightarrow> Q (emit ev r)"
    and rest: "\<And>key. Q (k key)"
  shows "Q (resolve_key w dir k)"
proof -
  have gen: "Q (checked (GenerateKeyPair Ed25519 (- 1)) (crypto_GenerateKeyPair w Ed25519 (- 1)) (\<lambda>privateKey.
             checked (MarshalPrivateKey privateKey) (crypto_MarshalPrivateKey w privateKey) (\<lambda>privateKeyBytes.
             checked (WriteFile p privateKeyBytes os_ModePerm)
               (nil_or (ioutil_WriteFile w p privateKeyBytes os_ModePerm)) (\<lambda>_.
             k privateKey))))" for p
    apply (rule checked_cases, rule leaf, simp add: is_Stat_def)
    apply (rule step, simp add: benign_def)
    apply (rule checked_cases, rule leaf, simp add: is_Stat_def)
    apply (rule step, simp add: benign_def)
    apply (rule checked_cases, rule leaf, simp add: is_Stat_def)
    apply (rule step, simp add: benign_def)
    apply (rule rest)
    done
  have rd: "Q (checked (ReadFile p) (ioutil_ReadFile w p) (\<lambda>privateKeyBytes.
             checked (UnmarshalPrivateKey privateKeyBytes) (crypto_UnmarshalPrivateKey w privateKeyBytes) (\<lambda>privateKey.
             k privateKey)))" for p
    apply (rule checked_cases, rule leaf, simp add: is_Stat_def)
    apply (rule step, simp add: benign_def)
    apply (rule checked_cases, rule leaf, simp add: is_Stat_def)
    apply (rule step, simp add: benign_def)
    apply (rule rest)
    done
  show ?thesis
    unfolding resolve_key_def Let_def
    by (rule step) (simp_all add: benign_def gen rd)
qed

lemma main_rule:
  assumes leaf: "\<And>c e. \<not> is_Stat c \<Longrightarrow> Q ([Call c (Some e), Fatalln e], Exited 1)"
    and step: "\<And>ev r. benign ev \<Longrightarrow> Q r \<Longrightarrow> Q (emit ev r)"
    and rest: "\<And>key. Q (start_node w (flag_Int 6666 given) key)"
  shows "Q (main w given)"
  unfolding main_def Let_def
  apply (rule step, simp add: benign_def)
  apply (rule checked_cases, rule leaf, simp add: is_Stat_def)
  apply (rule step, simp add: benign_def)
  apply (rule resolve_key_rule)
    apply (erule leaf)
   apply (erule step, assumption)
  apply (rule rest)
  done

lemma take2_rev_Cons: "take 2 (rev t) = [a, b] \<Longrightarrow> take 2 (rev (ev # t)) = [a, b]"
proof -
  assume h: "take 2 (rev t) = [a, b]"
  then have "length (take 2 (rev t)) = 2" by simp
  then have "2 \<le> length (rev t)" by simp
  with h show ?thesis by simp
qed

lemma benign_failed: "benign ev \<Longrightarrow> strict_failed (ev # t) = strict_failed t"
proof (cases ev)
  case (Call c r)
  assume "benign ev"
  with Call show ?thesis
    by (cases r; cases c) (simp_all add: benign_def is_Stat_def)
qed (simp_all add: benign_def)

lemma benign_started: "benign ev \<Longrightarrow> started (ev # t) = started t"
  by (cases ev) (simp_all add: benign_def)

lemma settled_leaf: "\<not> is_Stat c \<Longrightarrow> settled ([Call c (Some e), Fatalln e], Exited 1)"
  by (simp add: settled_def)

lemma settled_step:
  assumes b: "benign ev" and s: "settled r"
  shows "settled (emit ev r)"
proof -
  have f: "strict_failed (ev # fst r) = strict_failed (fst r)"
    using b by (rule benign_failed)
  have g: "started (ev # fst r) = started (fst r)"
    using b by (rule benign_started)
  from s consider
      (dead) c e where "snd r = Exited 1" "started (fst r) = []" "strict_failed (fst r) = [(c, e)]"
        "take 2 (rev (fst r)) = [Fatalln e, Call c (Some e)]"
    | (alive) h a where "snd r = Running h" "strict_failed (fst r) = []"
        "started (fst r) = [time_Second * 10]"
        "Call (Connect h (time_Second * 16) a) None \<in> set (fst r)"
    unfolding settled_def by blast
  then show ?thesis
  proof cases
    case dead
    from dead(4) have "take 2 (rev (ev # fst r)) = [Fatalln e, Call c (Some e)]"
      by (rule take2_rev_Cons)
    with dead f g show ?thesis
      unfolding settled_def fst_emit snd_emit by metis
  next
    case alive
    from alive(4) have "Call (Connect h (time_Second * 16) a) None \<in> set (ev # fst r)"
      by simp
    with alive f g show ?thesis
      unfolding settled_def fst_emit snd_emit by metis
  qed
qed

lemma settled_final:
  "settled ([Call (Connect h (time_Second * 16) a) None, Go (time_Second * 10)], Running h)"
  by (simp add: settled_def is_Stat_def)

lemma settled_start_node: "settled (start_node w port key)"
  by (rule start_node_rule [where Q = settled, OF settled_leaf settled_step settled_final])

lemma settled_main: "settled (main w given)"
  by (rule main_rule [where Q = settled, OF settled_leaf settled_step settled_start_node])

lemma in_failed: "(c, e) \<in> set (failed t) \<longleftrightarrow> Call c (Some e) \<in> set t"
  by (induction t rule: failed.induct) auto

lemma all_checked:
  "(\<forall>x\<in>set (fst (checked c r k)). P x) =
     (case r of Inl e \<Rightarrow> P (Call c (Some e)) \<and> P (Fatalln e)
              | Inr v \<Rightarrow> P (Call c None) \<and> (\<forall>x\<in>set (fst (k v)). P x))"
  by (simp add: fst_checked split: sum.splits)

lemma err_of_simps [simp]: "err_of (Inl e) = Some e" "err_of (Inr v) = None"
  by (simp_all add: err_of_def)

lemma nil_or_iff [simp]: "nil_or x = Inl e \<longleftrightarrow> x = Some e" "nil_or x = Inr u \<longleftrightarrow> x = None"
  by (cases x; simp add: nil_or_def)+

lemma start_node_emits:
  "key_resolved w path key \<Longrightarrow> \<forall>x\<in>set (fst (start_node w port key)). may_emit w port path x"
  unfolding start_node_def
  by (simp add: all_checked split: sum.splits) blast

lemma resolve_key_emits:
  assumes k: "\<And>key. key_resolved w (filepath_Join dir ''private.key'') key \<Longrightarrow>
                 \<forall>x\<in>set (fst (k key)). may_emit w port (filepath_Join dir ''private.key'') x"
  shows "\<forall>x\<in>set (fst (resolve_key w dir k)). may_emit w port (filepath_Join dir ''private.key'') x"
proof (cases "os_IsNotExist (os_Stat w (filepath_Join dir ''private.key''))")
  case True
  then show ?thesis
    unfolding resolve_key_def Let_def
    by (simp add: all_checked split: sum.splits) (intro allI impI k, simp add: key_resolved_def)
next
  case False
  then show ?thesis
    unfolding resolve_key_def Let_def
    by (simp add: all_checked split: sum.splits) (intro allI impI k, simp add: key_resolved_def)
qed

lemma main_emits:
  assumes "filepath_Abs_Dir w = Inr dir"
  shows "\<forall>x\<in>set (fst (main w given)).
           may_emit w (flag_Int 6666 given) (filepath_Join dir ''private.key'') x"
  unfolding main_def Let_def
  using assms
  by (simp add: all_checked) (intro resolve_key_emits start_node_emits, assumption)

lemma main_no_dir:
  "filepath_Abs_Dir w = Inl e \<Longrightarrow>
   main w given = ([Println (LogStart (flag_Int 6666 given)), Call Abs_Dir (Some e), Fatalln e], Exited 1)"
  by (simp add: main_def checked_Inl emit_def)


lemma start_node_no_autonat:
  assumes "libp2p_New w (node_config port key) = Inr h"
    and "peer_AddrInfoToP2pAddrs w (AddrInfo (host_ID h) (host_Addrs h)) = Inr myAddrs"
    and "autonat_New w h = Some e"
  shows "start_node w port key =
    ([Call (New (node_config port key)) None,
      Call (AddrInfoToP2pAddrs (AddrInfo (host_ID h) (host_Addrs h))) None,
      Println (LogMyAddrs myAddrs),
      Call (AutonatNew h) (Some e),
      Fatalln e],
     Exited 1)"
  using assms by (simp add: start_node_def checked_def emit_def nil_or_def fatal_def)


lemma main_generate:
  assumes "filepath_Abs_Dir w = Inr dir"
    and "os_Stat w (filepath_Join dir ''private.key'') = Some ErrNotExist"
    and "crypto_GenerateKeyPair w Ed25519 (- 1) = Inr key"
    and "crypto_MarshalPrivateKey w key = Inr bs"
    and "ioutil_WriteFile w (filepath_Join dir ''private.key'') bs os_ModePerm = None"
  shows "main w given =
     emit (Println (LogStart (flag_Int 6666 given))) (emit (Call Abs_Dir None) (
     emit (Call (Stat (filepath_Join dir ''private.key'')) (Some ErrNotExist)) (
     emit (Call (GenerateKeyPair Ed25519 (- 1)) None) (
     emit (Call (MarshalPrivateKey key) None) (
     emit (Call (WriteFile (filepath_Join dir ''private.key'') bs os_ModePerm) None) (
     start_node w (flag_Int 6666 given) key))))))"
  using assms
  by (simp add: main_def resolve_key_def checked_def nil_or_def os_IsNotExist_def Let_def)

lemma main_write_fails:
  assumes "filepath_Abs_Dir w = Inr dir"
    and "os_Stat w (filepath_Join dir ''private.key'') = Some ErrNotExist"
    and "crypto_GenerateKeyPair w Ed25519 (- 1) = Inr key"
    and "crypto_MarshalPrivateKey w key = Inr bs"
    and "ioutil_WriteFile w (filepath_Join dir ''private.key'') bs os_ModePerm = Some e"
  shows "main w given =
     ([Println (LogStart (flag_Int 6666 given)), Call Abs_Dir None,
       Call (Stat (filepath_Join dir ''private.key'')) (Some ErrNotExist),
       Call (GenerateKeyPair Ed25519 (- 1)) None,
       Call (MarshalPrivateKey key) None,
       Call (WriteFile (filepath_Join dir ''private.key'') bs os_ModePerm) (Some e),
       Fatalln e], Exited 1)"
  using assms
  by (simp add: main_def resolve_key_def checked_def nil_or_def os_IsNotExist_def Let_def
      emit_def fatal_def)


lemma main_read_fails:
  assumes "filepath_Abs_Dir w = Inr dir"
    and "\<not> os_IsNotExist (os_Stat w (filepath_Join dir ''private.key''))"
    and "ioutil_ReadFile w (filepath_Join dir ''private.key'') = Inl e"
  shows "main w given =
     ([Println (LogStart (flag_Int 6666 given)), Call Abs_Dir None,
       Call (Stat (filepath_Join dir ''private.key'')) (os_Stat w (filepath_Join dir ''private.key'')),
       Call (ReadFile (filepath_Join dir ''private.key'')) (Some e),
       Fatalln e], Exited 1)"
  using assms
  by (simp add: main_def resolve_key_def checked_def Let_def emit_def fatal_def)

lemma main_unmarshal_fails:
  assumes "filepath_Abs_Dir w = Inr dir"
    and "\<not> os_IsNotExist (os_Stat w (filepath_Join dir ''private.key''))"
    and "ioutil_ReadFile w (filepath_Join dir ''private.key'') = Inr bs"
    and "crypto_UnmarshalPrivateKey w bs = Inl e"
  shows "main w given =
     ([Println (LogStart (flag_Int 6666 given)), Call Abs_Dir None,
       Call (Stat (filepath_Join dir ''private.key'')) (os_Stat w (filepath_Join dir ''private.key'')),
       Call (ReadFile (filepath_Join dir ''private.key'')) None,
       Call (UnmarshalPrivateKey bs) (Some e),
       Fatalln e], Exited 1)"
  using assms
  by (simp add: main_def resolve_key_def checked_def Let_def emit_def fatal_def)





lemma New_calls:
  assumes "Call (New c) r \<in> set (fst (main w given))"
  shows "\<exists>k. c = node_config (flag_Int 6666 given) k"
proof (cases "filepath_Abs_Dir w")
  case (Inl e)
  with assms show ?thesis by (simp add: main_no_dir)
next
  case (Inr dir)
  from main_emits [OF Inr] assms
  have "may_emit w (flag_Int 6666 given) (filepath_Join dir ''private.key'') (Call (New c) r)"
    by blast
  then show ?thesis by auto
qed

subsection \<open>What \<^verbatim>\<open>main\<close> fixes for the libraries\<close>

text \<open>
  The connection manager and the dial are library code. What \<^verbatim>\<open>main\<close> decides is
  their parameters: the water marks 100 and 400 with a grace period of one minute, and
  a deadline of 16 seconds on the context of the bootstrap dial.
\<close>

lemma connection_manager_options:
  assumes "Call (New c) r \<in> set (fst (main w given))"
  shows "ConnectionManager c = (100, 400, time_Minute) \<and> sint time_Minute = 60 * 1000000000"
proof -
  from assms obtain k where "c = node_config (flag_Int 6666 given) k"
    using New_calls by blast
  then show ?thesis by (simp add: node_config_def time_Minute_def time_Second_def)
qed

lemma bootstrap_dial_deadline:
  assumes "Call (Connect h d a) r \<in> set (fst (main w given))"
  shows "d = time_Second * 16 \<and> sint d = 16 * 1000000000"
proof (cases "filepath_Abs_Dir w")
  case (Inl e)
  with assms show ?thesis by (simp add: main_no_dir)
next
  case (Inr dir)
  from main_emits [OF Inr] assms
  have "may_emit w (flag_Int 6666 given) (filepath_Join dir ''private.key'') (Call (Connect h d a) r)"
    by blast
  then show ?thesis by (simp add: time_Second_def)
qed

section \<open>Errors at startup\<close>

lemma settled_dead:
  assumes "settled r" and "Call c (Some e) \<in> set (fst r)" and "\<not> is_Stat c"
  shows "dies_on c e r"
proof -
  from assms(2,3) have m: "(c, e) \<in> set (strict_failed (fst r))"
    by (simp add: in_failed)
  from assms(1) m have "\<exists>c' e'. snd r = Exited 1 \<and> started (fst r) = [] \<and>
      strict_failed (fst r) = [(c', e')] \<and> take 2 (rev (fst r)) = [Fatalln e', Call c' (Some e')]"
    unfolding settled_def by (metis empty_iff list.set(1))
  then obtain c' e' where d: "snd r = Exited 1" "started (fst r) = []"
      "strict_failed (fst r) = [(c', e')]" "take 2 (rev (fst r)) = [Fatalln e', Call c' (Some e')]"
    by blast
  from m have "(c, e) \<in> set [(c', e')]" unfolding d(3) .
  then have "c' = c" "e' = e" by simp_all
  with d show ?thesis by (simp add: dies_on_def)
qed





lemma sample_marshal_key: "sample_marshal (PrivKey Ed25519 [7, 9]) = Inr [1, 7, 9]"
  by (simp add: sample_marshal_def)

lemma sample_host_eq:
  "Host ''QmNode'' (ListenAddrStrings (node_config 6666 k)) = sample_host"
  by (simp add: config_6666 sample_host_def)








section \<open>NAT traversal\<close>

lemma world_no_autonat_sel:
  "filepath_Abs_Dir world_no_autonat = Inr ''/opt/node''"
  "os_Stat world_no_autonat p = Some ErrNotExist"
  "crypto_GenerateKeyPair world_no_autonat t n = Inr (PrivKey t [7, 9])"
  "crypto_MarshalPrivateKey world_no_autonat = sample_marshal"
  "ioutil_WriteFile world_no_autonat p b m = None"
  "libp2p_New world_no_autonat c = Inr (Host ''QmNode'' (ListenAddrStrings c))"
  "peer_AddrInfoToP2pAddrs world_no_autonat a = Inr (map (\<lambda>x. x @ ''/p2p/'' @ info_ID a) (info_Addrs a))"
  "autonat_New world_no_autonat h = Some (ErrOther ''autonat'')"
  by (simp_all add: world_no_autonat_def world_fresh_def)

lemma main_no_autonat:
  "main world_no_autonat None =
     ([Println (LogStart 6666), Call Abs_Dir None,
       Call (Stat ''/opt/node/private.key'') (Some ErrNotExist),
       Call (GenerateKeyPair Ed25519 (- 1)) None,
       Call (MarshalPrivateKey (PrivKey Ed25519 [7, 9])) None,
       Call (WriteFile ''/opt/node/private.key'' [1, 7, 9] os_ModePerm) None,
       Call (New (node_config 6666 (PrivKey Ed25519 [7, 9]))) None,
       Call (AddrInfoToP2pAddrs (AddrInfo ''QmNode'' [''/ip4/0.0.0.0/tcp/6666'', ''/ip4/0.0.0.0/udp/6666/quic''])) None,
       Println (LogMyAddrs [''/ip4/0.0.0.0/tcp/6666/p2p/QmNode'', ''/ip4/0.0.0.0/udp/6666/quic/p2p/QmNode'']),
       Call (AutonatNew sample_host) (Some (ErrOther ''autonat'')),
       Fatalln (ErrOther ''autonat'')],
      Exited 1)"
proof -
  have s: "start_node world_no_autonat 6666 (PrivKey Ed25519 [7, 9]) =
    ([Call (New (node_config 6666 (PrivKey Ed25519 [7, 9]))) None,
      Call (AddrInfoToP2pAddrs (AddrInfo (host_ID sample_host) (host_Addrs sample_host))) None,
      Println (LogMyAddrs [''/ip4/0.0.0.0/tcp/6666/p2p/QmNode'', ''/ip4/0.0.0.0/udp/6666/quic/p2p/QmNode'']),
      Call (AutonatNew sample_host) (Some (ErrOther ''autonat'')),
      Fatalln (ErrOther ''autonat'')],
     Exited 1)"
    by (rule start_node_no_autonat)
       (simp_all add: world_no_autonat_sel sample_host_eq, simp_all add: sample_host_def)
  have "main world_no_autonat None =
     emit (Println (LogStart (flag_Int 6666 None))) (emit (Call Abs_Dir None) (
     emit (Call (Stat (filepath_Join ''/opt/node'' ''private.key'')) (Some ErrNotExist)) (
     emit (Call (GenerateKeyPair Ed25519 (- 1)) None) (
     emit (Call (MarshalPrivateKey (PrivKey Ed25519 [7, 9])) None) (
     emit (Call (WriteFile (filepath_Join ''/opt/node'' ''private.key'') [1, 7, 9] os_ModePerm) None) (
     start_node world_no_autonat (flag_Int 6666 None) (PrivKey Ed25519 [7, 9])))))))"
    by (rule main_generate) (simp_all add: world_no_autonat_sel sample_marshal_key)
  then show ?thesis
    by (simp add: flag_Int_def key_path s emit_def sample_host_def)
qed

text \<open>
  C7, as the specification states it: a failure of the NAT and reachability coordinator
  at startup is not fatal. It fails in the world \<open>world_no_autonat\<close>: \<^verbatim>\<open>autonat.New\<close>
  returns an error, and the run logs that error with \<^verbatim>\<open>log.Fatalln\<close> and exits with
  status 1 (lines 121 to 124).
\<close>

theorem nat_failure_counterexample:
  "Call (AutonatNew sample_host) (Some (ErrOther ''autonat'')) \<in> set (fst (main world_no_autonat None)) \<and>
   snd (main world_no_autonat None) = Exited 1 \<and>
   last (fst (main world_no_autonat None)) = Fatalln (ErrOther ''autonat'')"
  by (simp add: main_no_autonat)

text \<open>
  C7, amended. Whenever \<^verbatim>\<open>autonat.New\<close> returns an error, \<^verbatim>\<open>main\<close> logs it with
  \<^verbatim>\<open>log.Fatalln\<close> and exits with status 1, the reporting goroutine not started. What
  \<^verbatim>\<open>main\<close> does for NAT traversal besides is to switch on port mapping and auto relay in
  the options of every \<^verbatim>\<open>libp2p.New\<close> call.
\<close>

theorem autonat_failure_fatal:
  "(\<forall>h e. Call (AutonatNew h) (Some e) \<in> set (fst (main w given)) \<longrightarrow>
      dies_on (AutonatNew h) e (main w given)) \<and>
   (\<forall>c r. Call (New c) r \<in> set (fst (main w given)) \<longrightarrow> NATPortMap c \<and> EnableAutoRelay c)"
proof (intro conjI allI impI)
  fix h e
  assume "Call (AutonatNew h) (Some e) \<in> set (fst (main w given))"
  moreover have "\<not> is_Stat (AutonatNew h)" by (simp add: is_Stat_def)
  ultimately show "dies_on (AutonatNew h) e (main w given)"
    by (rule settled_dead [OF settled_main])
next
  fix c r
  assume "Call (New c) r \<in> set (fst (main w given))"
  then obtain k where c: "c = node_config (flag_Int 6666 given) k"
    using New_calls by blast
  show "NATPortMap c" unfolding c by (simp add: node_config_def)
  show "EnableAutoRelay c" unfolding c by (simp add: node_config_def)
qed

theorem autonat_failure_fatal_witness:
  "dies_on (AutonatNew sample_host) (ErrOther ''autonat'') (main world_no_autonat None) \<and>
   NATPortMap (node_config 6666 (PrivKey Ed25519 [7, 9])) \<and>
   EnableAutoRelay (node_config 6666 (PrivKey Ed25519 [7, 9]))"
proof -
  have a: "Call (AutonatNew sample_host) (Some (ErrOther ''autonat'')) \<in> set (fst (main world_no_autonat None))"
    by (simp add: main_no_autonat)
  have n: "Call (New (node_config 6666 (PrivKey Ed25519 [7, 9]))) None \<in> set (fst (main world_no_autonat None))"
    by (simp add: main_no_autonat)
  from autonat_failure_fatal [of world_no_autonat None] a n show ?thesis
    by blast
qed

section \<open>The status reporter\<close>





section \<open>The identity of the node\<close>

lemma main_absent:
  assumes "filepath_Abs_Dir w = Inr dir"
    and "os_IsNotExist (os_Stat w (filepath_Join dir ''private.key''))"
  shows "main w given =
     emit (Println (LogStart (flag_Int 6666 given))) (emit (Call Abs_Dir None) (
     emit (Call (Stat (filepath_Join dir ''private.key'')) (os_Stat w (filepath_Join dir ''private.key''))) (
     checked (GenerateKeyPair Ed25519 (- 1)) (crypto_GenerateKeyPair w Ed25519 (- 1)) (\<lambda>privateKey.
     checked (MarshalPrivateKey privateKey) (crypto_MarshalPrivateKey w privateKey) (\<lambda>privateKeyBytes.
     checked (WriteFile (filepath_Join dir ''private.key'') privateKeyBytes os_ModePerm)
       (nil_or (ioutil_WriteFile w (filepath_Join dir ''private.key'') privateKeyBytes os_ModePerm)) (\<lambda>_.
     start_node w (flag_Int 6666 given) privateKey))))))"
  using assms by (simp add: main_def resolve_key_def checked_Inr Let_def)

lemma main_present:
  assumes "filepath_Abs_Dir w = Inr dir"
    and "\<not> os_IsNotExist (os_Stat w (filepath_Join dir ''private.key''))"
  shows "main w given =
     emit (Println (LogStart (flag_Int 6666 given))) (emit (Call Abs_Dir None) (
     emit (Call (Stat (filepath_Join dir ''private.key'')) (os_Stat w (filepath_Join dir ''private.key''))) (
     checked (ReadFile (filepath_Join dir ''private.key'')) (ioutil_ReadFile w (filepath_Join dir ''private.key'')) (\<lambda>privateKeyBytes.
     checked (UnmarshalPrivateKey privateKeyBytes) (crypto_UnmarshalPrivateKey w privateKeyBytes) (\<lambda>privateKey.
     start_node w (flag_Int 6666 given) privateKey)))))"
  using assms by (simp add: main_def resolve_key_def checked_Inr Let_def)

lemma in_checked_call:
  "Call c (err_of r) \<in> set (fst (checked c r k))"
  by (cases r) (simp_all add: fst_checked)

lemma in_checked_rest:
  "r = Inr v \<Longrightarrow> x \<in> set (fst (k v)) \<Longrightarrow> x \<in> set (fst (checked c r k))"
  by (simp add: fst_checked)

lemma nil_or_err [simp]: "err_of (nil_or x) = x"
  by (cases x) (simp_all add: nil_or_def)

lemma identities_start_node: "identities (fst (start_node w port key)) = [key]"
  unfolding start_node_def
  by (simp add: fst_checked node_config_def split: sum.splits)

lemma written_start_node: "written (fst (start_node w port key)) fs = fs"
  unfolding start_node_def
  by (simp add: fst_checked split: sum.splits)

lemma generated_calls:
  assumes d: "filepath_Abs_Dir w = Inr dir"
    and a: "os_IsNotExist (os_Stat w (filepath_Join dir ''private.key''))"
  shows "Call (GenerateKeyPair Ed25519 (- 1)) (err_of (crypto_GenerateKeyPair w Ed25519 (- 1)))
           \<in> set (fst (main w given))"
    and "crypto_GenerateKeyPair w Ed25519 (- 1) = Inr key \<Longrightarrow>
         Call (MarshalPrivateKey key) (err_of (crypto_MarshalPrivateKey w key)) \<in> set (fst (main w given))"
    and "crypto_GenerateKeyPair w Ed25519 (- 1) = Inr key \<Longrightarrow> crypto_MarshalPrivateKey w key = Inr bs \<Longrightarrow>
         Call (WriteFile (filepath_Join dir ''private.key'') bs os_ModePerm)
              (ioutil_WriteFile w (filepath_Join dir ''private.key'') bs os_ModePerm)
           \<in> set (fst (main w given))"
proof -
  note m = main_absent [OF d a, of given]
  show "Call (GenerateKeyPair Ed25519 (- 1)) (err_of (crypto_GenerateKeyPair w Ed25519 (- 1)))
           \<in> set (fst (main w given))"
    unfolding m by (simp add: in_checked_call)
  show "Call (MarshalPrivateKey key) (err_of (crypto_MarshalPrivateKey w key)) \<in> set (fst (main w given))"
    if "crypto_GenerateKeyPair w Ed25519 (- 1) = Inr key"
    unfolding m using that by (simp add: checked_Inr in_checked_call)
  show "Call (WriteFile (filepath_Join dir ''private.key'') bs os_ModePerm)
              (ioutil_WriteFile w (filepath_Join dir ''private.key'') bs os_ModePerm)
           \<in> set (fst (main w given))"
    if "crypto_GenerateKeyPair w Ed25519 (- 1) = Inr key" "crypto_MarshalPrivateKey w key = Inr bs"
    unfolding m using that
      in_checked_call [of "WriteFile (filepath_Join dir ''private.key'') bs os_ModePerm"
        "nil_or (ioutil_WriteFile w (filepath_Join dir ''private.key'') bs os_ModePerm)"]
    by (simp add: checked_Inr)
qed

lemma loaded_calls:
  assumes d: "filepath_Abs_Dir w = Inr dir"
    and a: "\<not> os_IsNotExist (os_Stat w (filepath_Join dir ''private.key''))"
  shows "Call (ReadFile (filepath_Join dir ''private.key'')) (err_of (ioutil_ReadFile w (filepath_Join dir ''private.key'')))
           \<in> set (fst (main w given))"
    and "ioutil_ReadFile w (filepath_Join dir ''private.key'') = Inr bs \<Longrightarrow>
         Call (UnmarshalPrivateKey bs) (err_of (crypto_UnmarshalPrivateKey w bs)) \<in> set (fst (main w given))"
    and "ioutil_ReadFile w (filepath_Join dir ''private.key'') = Inr bs \<Longrightarrow>
         crypto_UnmarshalPrivateKey w bs = Inr key \<Longrightarrow> identities (fst (main w given)) = [key]"
proof -
  note m = main_present [OF d a, of given]
  show "Call (ReadFile (filepath_Join dir ''private.key'')) (err_of (ioutil_ReadFile w (filepath_Join dir ''private.key'')))
           \<in> set (fst (main w given))"
    unfolding m by (simp add: in_checked_call)
  show "Call (UnmarshalPrivateKey bs) (err_of (crypto_UnmarshalPrivateKey w bs)) \<in> set (fst (main w given))"
    if "ioutil_ReadFile w (filepath_Join dir ''private.key'') = Inr bs"
    unfolding m using that by (simp add: checked_Inr in_checked_call)
  show "identities (fst (main w given)) = [key]"
    if "ioutil_ReadFile w (filepath_Join dir ''private.key'') = Inr bs" "crypto_UnmarshalPrivateKey w bs = Inr key"
    unfolding m using that by (simp add: checked_Inr identities_start_node)
qed

lemma emitted:
  assumes "filepath_Abs_Dir w = Inr dir" and "x \<in> set (fst (main w given))"
  shows "may_emit w (flag_Int 6666 given) (filepath_Join dir ''private.key'') x"
  using main_emits [OF assms(1)] assms(2) by blast

lemma world_stored_sel:
  "filepath_Abs_Dir world_stored = Inr ''/opt/node''"
  "os_Stat world_stored ''/opt/node/private.key'' = None"
  "ioutil_ReadFile world_stored ''/opt/node/private.key'' = Inr [1, 7, 9]"
  "crypto_UnmarshalPrivateKey world_stored = sample_unmarshal"
  "crypto_MarshalPrivateKey world_stored = sample_marshal"
  by (simp_all add: world_stored_def world_fresh_def)

lemma world_corrupt_sel:
  "filepath_Abs_Dir world_corrupt = Inr ''/opt/node''"
  "os_Stat world_corrupt ''/opt/node/private.key'' = None"
  "ioutil_ReadFile world_corrupt p = Inr [200, 7, 9]"
  "crypto_UnmarshalPrivateKey world_corrupt = sample_unmarshal"
  by (simp_all add: world_corrupt_def world_stored_def world_fresh_def)

lemma world_denied_sel:
  "filepath_Abs_Dir world_denied = Inr ''/opt/node''"
  "os_Stat world_denied p = Some ErrPermission"
  "ioutil_ReadFile world_denied p = Inl ErrPermission"
  by (simp_all add: world_denied_def world_fresh_def)

lemma sample_unmarshal_key: "sample_unmarshal [1, 7, 9] = Inr (PrivKey Ed25519 [7, 9])"
  by (simp add: sample_unmarshal_def)

lemma sample_unmarshal_bad: "sample_unmarshal [200, 7, 9] = Inl (ErrOther ''bad key type'')"
  by (simp add: sample_unmarshal_def)

lemma ModePerm_511: "os_ModePerm = 511"
  by (simp add: os_ModePerm_def)

lemma ModePerm_not_owner_only: "\<not> owner_only os_ModePerm"
  by (simp add: owner_only_def ModePerm_511)

text \<open>
  C3. Let the directory of the program be known. If \<^verbatim>\<open>os.Stat\<close> reports that the key file
  does not exist, \<^verbatim>\<open>main\<close> calls \<^verbatim>\<open>crypto.GenerateKeyPair\<close> for an Ed25519 key and, the
  key generated and serialized, writes the serialized key to the key-file path; it reads
  no file. If \<^verbatim>\<open>os.Stat\<close> reports the file, \<^verbatim>\<open>main\<close> reads it, passes the bytes read to
  \<^verbatim>\<open>crypto.UnmarshalPrivateKey\<close> and takes the decoded key as the identity of the node; it
  generates no key. Bytes that do not decode end the run: the decoding error is logged
  with \<^verbatim>\<open>log.Fatalln\<close> and the status is 1.
\<close>

theorem identity_resolution:
  assumes d: "filepath_Abs_Dir w = Inr dir"
  shows
  "(os_Stat w (filepath_Join dir ''private.key'') = Some ErrNotExist \<longrightarrow>
      Call (GenerateKeyPair Ed25519 (- 1)) (err_of (crypto_GenerateKeyPair w Ed25519 (- 1)))
        \<in> set (fst (main w given)) \<and>
      (\<forall>key bs. crypto_GenerateKeyPair w Ed25519 (- 1) = Inr key \<longrightarrow>
          crypto_MarshalPrivateKey w key = Inr bs \<longrightarrow>
          Call (WriteFile (filepath_Join dir ''private.key'') bs os_ModePerm)
               (ioutil_WriteFile w (filepath_Join dir ''private.key'') bs os_ModePerm)
            \<in> set (fst (main w given))) \<and>
      (\<forall>p r. Call (ReadFile p) r \<notin> set (fst (main w given)))) \<and>
   (os_Stat w (filepath_Join dir ''private.key'') = None \<longrightarrow>
      Call (ReadFile (filepath_Join dir ''private.key''))
           (err_of (ioutil_ReadFile w (filepath_Join dir ''private.key'')))
        \<in> set (fst (main w given)) \<and>
      (\<forall>bs. ioutil_ReadFile w (filepath_Join dir ''private.key'') = Inr bs \<longrightarrow>
          Call (UnmarshalPrivateKey bs) (err_of (crypto_UnmarshalPrivateKey w bs))
            \<in> set (fst (main w given)) \<and>
          (\<forall>key. crypto_UnmarshalPrivateKey w bs = Inr key \<longrightarrow>
             identities (fst (main w given)) = [key]) \<and>
          (\<forall>e. crypto_UnmarshalPrivateKey w bs = Inl e \<longrightarrow>
             dies_on (UnmarshalPrivateKey bs) e (main w given))) \<and>
      (\<forall>t n r. Call (GenerateKeyPair t n) r \<notin> set (fst (main w given))))"
proof (intro conjI impI)
  assume s: "os_Stat w (filepath_Join dir ''private.key'') = Some ErrNotExist"
  then have a: "os_IsNotExist (os_Stat w (filepath_Join dir ''private.key''))"
    by (simp add: os_IsNotExist_def)
  show "Call (GenerateKeyPair Ed25519 (- 1)) (err_of (crypto_GenerateKeyPair w Ed25519 (- 1)))
        \<in> set (fst (main w given))"
    by (rule generated_calls(1) [OF d a])
  show "\<forall>key bs. crypto_GenerateKeyPair w Ed25519 (- 1) = Inr key \<longrightarrow>
          crypto_MarshalPrivateKey w key = Inr bs \<longrightarrow>
          Call (WriteFile (filepath_Join dir ''private.key'') bs os_ModePerm)
               (ioutil_WriteFile w (filepath_Join dir ''private.key'') bs os_ModePerm)
            \<in> set (fst (main w given))"
    using generated_calls(3) [OF d a] by blast
  show "\<forall>p r. Call (ReadFile p) r \<notin> set (fst (main w given))"
  proof (intro allI notI)
    fix p r assume "Call (ReadFile p) r \<in> set (fst (main w given))"
    from emitted [OF d this] a show False by simp
  qed
next
  assume s: "os_Stat w (filepath_Join dir ''private.key'') = None"
  then have a: "\<not> os_IsNotExist (os_Stat w (filepath_Join dir ''private.key''))"
    by (simp add: os_IsNotExist_def)
  show "Call (ReadFile (filepath_Join dir ''private.key''))
           (err_of (ioutil_ReadFile w (filepath_Join dir ''private.key'')))
        \<in> set (fst (main w given))"
    by (rule loaded_calls(1) [OF d a])
  show "\<forall>bs. ioutil_ReadFile w (filepath_Join dir ''private.key'') = Inr bs \<longrightarrow>
          Call (UnmarshalPrivateKey bs) (err_of (crypto_UnmarshalPrivateKey w bs))
            \<in> set (fst (main w given)) \<and>
          (\<forall>key. crypto_UnmarshalPrivateKey w bs = Inr key \<longrightarrow>
             identities (fst (main w given)) = [key]) \<and>
          (\<forall>e. crypto_UnmarshalPrivateKey w bs = Inl e \<longrightarrow>
             dies_on (UnmarshalPrivateKey bs) e (main w given))"
  proof (intro allI impI conjI)
    fix bs assume r: "ioutil_ReadFile w (filepath_Join dir ''private.key'') = Inr bs"
    show u: "Call (UnmarshalPrivateKey bs) (err_of (crypto_UnmarshalPrivateKey w bs))
            \<in> set (fst (main w given))"
      by (rule loaded_calls(2) [OF d a r])
    show "identities (fst (main w given)) = [key]" if "crypto_UnmarshalPrivateKey w bs = Inr key" for key
      by (rule loaded_calls(3) [OF d a r that])
    show "dies_on (UnmarshalPrivateKey bs) e (main w given)" if "crypto_UnmarshalPrivateKey w bs = Inl e" for e
    proof (rule settled_dead [OF settled_main])
      from u that show "Call (UnmarshalPrivateKey bs) (Some e) \<in> set (fst (main w given))" by simp
      show "\<not> is_Stat (UnmarshalPrivateKey bs)" by (simp add: is_Stat_def)
    qed
  qed
  show "\<forall>t n r. Call (GenerateKeyPair t n) r \<notin> set (fst (main w given))"
  proof (intro allI notI)
    fix t n r assume "Call (GenerateKeyPair t n) r \<in> set (fst (main w given))"
    from emitted [OF d this] a show False by simp
  qed
qed

theorem identity_resolution_witness:
  "Call (GenerateKeyPair Ed25519 (- 1)) None \<in> set (fst (main world_fresh None)) \<and>
   Call (WriteFile ''/opt/node/private.key'' [1, 7, 9] os_ModePerm) None
     \<in> set (fst (main world_fresh None)) \<and>
   Call (ReadFile ''/opt/node/private.key'') None \<in> set (fst (main world_stored None)) \<and>
   identities (fst (main world_stored None)) = [PrivKey Ed25519 [7, 9]] \<and>
   dies_on (UnmarshalPrivateKey [200, 7, 9]) (ErrOther ''bad key type'') (main world_corrupt None)"
proof -
  note f = identity_resolution [of world_fresh "''/opt/node''" None, unfolded key_path,
      OF world_fresh_sel(1)]
  note s = identity_resolution [of world_stored "''/opt/node''" None, unfolded key_path,
      OF world_stored_sel(1)]
  note c = identity_resolution [of world_corrupt "''/opt/node''" None, unfolded key_path,
      OF world_corrupt_sel(1)]
  from f have 1: "Call (GenerateKeyPair Ed25519 (- 1)) None \<in> set (fst (main world_fresh None))"
    by (simp add: world_fresh_sel)
  from f have 2: "Call (WriteFile ''/opt/node/private.key'' [1, 7, 9] os_ModePerm) None
     \<in> set (fst (main world_fresh None))"
    by (simp add: world_fresh_sel sample_marshal_key)
  from s have 3: "Call (ReadFile ''/opt/node/private.key'') None \<in> set (fst (main world_stored None))"
    by (simp add: world_stored_sel)
  from s have 4: "identities (fst (main world_stored None)) = [PrivKey Ed25519 [7, 9]]"
    by (simp add: world_stored_sel sample_unmarshal_key)
  from c have 5: "dies_on (UnmarshalPrivateKey [200, 7, 9]) (ErrOther ''bad key type'') (main world_corrupt None)"
    by (simp add: world_corrupt_sel sample_unmarshal_bad)
  from 1 2 3 4 5 show ?thesis by simp
qed

text \<open>
  C10. A key is generated only in runs where \<^verbatim>\<open>os.IsNotExist\<close> holds of the error of
  \<^verbatim>\<open>os.Stat\<close> on the key-file path. For every other outcome of that call, \<^verbatim>\<open>nil\<close> or any
  other error such as a refused permission, \<^verbatim>\<open>main\<close> reads the file at the path, and
  decodes the bytes if the read succeeds; an error of the read or of the decoding is logged
  with \<^verbatim>\<open>log.Fatalln\<close> and ends the run with status 1.
\<close>

theorem generation_only_when_absent:
  "(\<forall>t n r. Call (GenerateKeyPair t n) r \<in> set (fst (main w given)) \<longrightarrow>
      (\<exists>dir. filepath_Abs_Dir w = Inr dir \<and>
             os_IsNotExist (os_Stat w (filepath_Join dir ''private.key'')))) \<and>
   (\<forall>dir. filepath_Abs_Dir w = Inr dir \<longrightarrow>
      \<not> os_IsNotExist (os_Stat w (filepath_Join dir ''private.key'')) \<longrightarrow>
      Call (ReadFile (filepath_Join dir ''private.key''))
           (err_of (ioutil_ReadFile w (filepath_Join dir ''private.key'')))
        \<in> set (fst (main w given)) \<and>
      (\<forall>e. ioutil_ReadFile w (filepath_Join dir ''private.key'') = Inl e \<longrightarrow>
         dies_on (ReadFile (filepath_Join dir ''private.key'')) e (main w given)) \<and>
      (\<forall>bs. ioutil_ReadFile w (filepath_Join dir ''private.key'') = Inr bs \<longrightarrow>
         Call (UnmarshalPrivateKey bs) (err_of (crypto_UnmarshalPrivateKey w bs))
           \<in> set (fst (main w given)) \<and>
         (\<forall>e. crypto_UnmarshalPrivateKey w bs = Inl e \<longrightarrow>
            dies_on (UnmarshalPrivateKey bs) e (main w given)))) \<and>
   \<not> os_IsNotExist None \<and> \<not> os_IsNotExist (Some ErrPermission) \<and>
   os_IsNotExist (Some ErrNotExist)"
proof (intro conjI allI impI)
  fix t n r
  assume g: "Call (GenerateKeyPair t n) r \<in> set (fst (main w given))"
  show "\<exists>dir. filepath_Abs_Dir w = Inr dir \<and>
             os_IsNotExist (os_Stat w (filepath_Join dir ''private.key''))"
  proof (cases "filepath_Abs_Dir w")
    case (Inl e)
    with g show ?thesis by (simp add: main_no_dir)
  next
    case (Inr dir)
    from emitted [OF Inr g] Inr show ?thesis by simp
  qed
next
  fix dir
  assume d: "filepath_Abs_Dir w = Inr dir"
    and a: "\<not> os_IsNotExist (os_Stat w (filepath_Join dir ''private.key''))"
  show r: "Call (ReadFile (filepath_Join dir ''private.key''))
           (err_of (ioutil_ReadFile w (filepath_Join dir ''private.key'')))
        \<in> set (fst (main w given))"
    by (rule loaded_calls(1) [OF d a])
  show "dies_on (ReadFile (filepath_Join dir ''private.key'')) e (main w given)"
    if "ioutil_ReadFile w (filepath_Join dir ''private.key'') = Inl e" for e
  proof (rule settled_dead [OF settled_main])
    from r that show "Call (ReadFile (filepath_Join dir ''private.key'')) (Some e) \<in> set (fst (main w given))"
      by simp
    show "\<not> is_Stat (ReadFile (filepath_Join dir ''private.key''))" by (simp add: is_Stat_def)
  qed
  fix bs assume b: "ioutil_ReadFile w (filepath_Join dir ''private.key'') = Inr bs"
  show u: "Call (UnmarshalPrivateKey bs) (err_of (crypto_UnmarshalPrivateKey w bs))
           \<in> set (fst (main w given))"
    by (rule loaded_calls(2) [OF d a b])
  show "dies_on (UnmarshalPrivateKey bs) e (main w given)"
    if "crypto_UnmarshalPrivateKey w bs = Inl e" for e
  proof (rule settled_dead [OF settled_main])
    from u that show "Call (UnmarshalPrivateKey bs) (Some e) \<in> set (fst (main w given))" by simp
    show "\<not> is_Stat (UnmarshalPrivateKey bs)" by (simp add: is_Stat_def)
  qed
qed (simp_all add: os_IsNotExist_def)

theorem generation_only_when_absent_witness:
  "\<not> os_IsNotExist (os_Stat world_denied ''/opt/node/private.key'') \<and>
   Call (ReadFile ''/opt/node/private.key'') (Some ErrPermission) \<in> set (fst (main world_denied None)) \<and>
   dies_on (ReadFile ''/opt/node/private.key'') ErrPermission (main world_denied None) \<and>
   dies_on (UnmarshalPrivateKey [200, 7, 9]) (ErrOther ''bad key type'') (main world_corrupt None) \<and>
   Call (GenerateKeyPair Ed25519 (- 1)) None \<in> set (fst (main world_fresh None)) \<and>
   os_IsNotExist (os_Stat world_fresh ''/opt/node/private.key'')"
proof -
  have n: "\<not> os_IsNotExist (os_Stat world_denied ''/opt/node/private.key'')"
    by (simp add: world_denied_sel os_IsNotExist_def)
  have nc: "\<not> os_IsNotExist (os_Stat world_corrupt ''/opt/node/private.key'')"
    by (simp add: world_corrupt_sel os_IsNotExist_def)
  note t = generation_only_when_absent [of world_denied None]
  from t world_denied_sel(1) n
  have 1: "Call (ReadFile ''/opt/node/private.key'') (Some ErrPermission) \<in> set (fst (main world_denied None))"
    by (auto simp: key_path world_denied_sel dest!: spec [where x = "''/opt/node''"])
  from t world_denied_sel(1) n
  have 2: "dies_on (ReadFile ''/opt/node/private.key'') ErrPermission (main world_denied None)"
    by (auto simp: key_path world_denied_sel dest!: spec [where x = "''/opt/node''"])
  from generation_only_when_absent [of world_corrupt None] world_corrupt_sel(1) nc
  have 3: "dies_on (UnmarshalPrivateKey [200, 7, 9]) (ErrOther ''bad key type'') (main world_corrupt None)"
    by (auto simp: key_path world_corrupt_sel sample_unmarshal_bad dest!: spec [where x = "''/opt/node''"])
  have 4: "Call (GenerateKeyPair Ed25519 (- 1)) None \<in> set (fst (main world_fresh None))"
    by (simp add: main_fresh)
  have 5: "os_IsNotExist (os_Stat world_fresh ''/opt/node/private.key'')"
    by (simp add: world_fresh_sel os_IsNotExist_def)
  from n 1 2 3 4 5 show ?thesis by simp
qed

text \<open>
  C4, as the specification states it: the key file is written with owner-only
  permissions. It fails in the world \<open>world_fresh\<close>: the mode given to
  \<^verbatim>\<open>ioutil.WriteFile\<close> is \<^verbatim>\<open>os.ModePerm\<close>, 511 (octal 0777), which has the bits of the group
  and of others set.
\<close>

theorem key_file_mode_counterexample:
  "Call (WriteFile ''/opt/node/private.key'' [1, 7, 9] 511) None \<in> set (fst (main world_fresh None)) \<and>
   \<not> owner_only 511"
  using ModePerm_not_owner_only by (simp add: main_fresh ModePerm_511)

text \<open>
  C4, amended. Every \<^verbatim>\<open>ioutil.WriteFile\<close> call of \<^verbatim>\<open>main\<close> is made in the branch of the
  absent key file, on the key-file path, with the serialization of the generated key and
  with the mode \<^verbatim>\<open>os.ModePerm\<close>; and when the key file is absent and the key is generated
  and serialized, that call is made. \<^verbatim>\<open>os.ModePerm\<close> is octal 0777, read, write and
  execute for owner, group and others: it is not an owner-only mode.
\<close>

theorem key_file_mode:
  "(\<forall>p b m r. Call (WriteFile p b m) r \<in> set (fst (main w given)) \<longrightarrow>
      m = os_ModePerm \<and>
      (\<exists>dir. filepath_Abs_Dir w = Inr dir \<and> p = filepath_Join dir ''private.key'' \<and>
             os_IsNotExist (os_Stat w p)) \<and>
      (\<exists>k. crypto_GenerateKeyPair w Ed25519 (- 1) = Inr k \<and> crypto_MarshalPrivateKey w k = Inr b)) \<and>
   (\<forall>dir key bs. filepath_Abs_Dir w = Inr dir \<longrightarrow>
      os_Stat w (filepath_Join dir ''private.key'') = Some ErrNotExist \<longrightarrow>
      crypto_GenerateKeyPair w Ed25519 (- 1) = Inr key \<longrightarrow>
      crypto_MarshalPrivateKey w key = Inr bs \<longrightarrow>
      Call (WriteFile (filepath_Join dir ''private.key'') bs os_ModePerm)
           (ioutil_WriteFile w (filepath_Join dir ''private.key'') bs os_ModePerm)
        \<in> set (fst (main w given))) \<and>
   unat os_ModePerm = 7 * 64 + 7 * 8 + 7 \<and> \<not> owner_only os_ModePerm"
proof (intro conjI allI impI)
  fix p b m r
  assume c: "Call (WriteFile p b m) r \<in> set (fst (main w given))"
  have x: "m = os_ModePerm \<and>
      (\<exists>dir. filepath_Abs_Dir w = Inr dir \<and> p = filepath_Join dir ''private.key'' \<and>
             os_IsNotExist (os_Stat w p)) \<and>
      (\<exists>k. crypto_GenerateKeyPair w Ed25519 (- 1) = Inr k \<and> crypto_MarshalPrivateKey w k = Inr b)"
  proof (cases "filepath_Abs_Dir w")
    case (Inl e)
    with c show ?thesis by (simp add: main_no_dir)
  next
    case (Inr dir)
    from emitted [OF Inr c] Inr show ?thesis by simp
  qed
  from x show "m = os_ModePerm" by simp
  from x show "\<exists>dir. filepath_Abs_Dir w = Inr dir \<and> p = filepath_Join dir ''private.key'' \<and>
             os_IsNotExist (os_Stat w p)" by simp
  from x show "\<exists>k. crypto_GenerateKeyPair w Ed25519 (- 1) = Inr k \<and> crypto_MarshalPrivateKey w k = Inr b"
    by simp
next
  fix dir key bs
  assume d: "filepath_Abs_Dir w = Inr dir"
    and s: "os_Stat w (filepath_Join dir ''private.key'') = Some ErrNotExist"
    and g: "crypto_GenerateKeyPair w Ed25519 (- 1) = Inr key"
    and m: "crypto_MarshalPrivateKey w key = Inr bs"
  from s have a: "os_IsNotExist (os_Stat w (filepath_Join dir ''private.key''))"
    by (simp add: os_IsNotExist_def)
  show "Call (WriteFile (filepath_Join dir ''private.key'') bs os_ModePerm)
           (ioutil_WriteFile w (filepath_Join dir ''private.key'') bs os_ModePerm)
        \<in> set (fst (main w given))"
    by (rule generated_calls(3) [OF d a g m])
next
  show "unat os_ModePerm = 7 * 64 + 7 * 8 + 7" by (simp add: ModePerm_511)
  show "\<not> owner_only os_ModePerm" by (rule ModePerm_not_owner_only)
qed

theorem key_file_mode_witness:
  "Call (WriteFile ''/opt/node/private.key'' [1, 7, 9] os_ModePerm) None
     \<in> set (fst (main world_fresh None)) \<and>
   os_Stat world_fresh ''/opt/node/private.key'' = Some ErrNotExist \<and>
   unat os_ModePerm = 511"
proof -
  from key_file_mode [of world_fresh None]
  have "filepath_Abs_Dir world_fresh = Inr ''/opt/node'' \<longrightarrow>
      os_Stat world_fresh (filepath_Join ''/opt/node'' ''private.key'') = Some ErrNotExist \<longrightarrow>
      crypto_GenerateKeyPair world_fresh Ed25519 (- 1) = Inr (PrivKey Ed25519 [7, 9]) \<longrightarrow>
      crypto_MarshalPrivateKey world_fresh (PrivKey Ed25519 [7, 9]) = Inr [1, 7, 9] \<longrightarrow>
      Call (WriteFile (filepath_Join ''/opt/node'' ''private.key'') [1, 7, 9] os_ModePerm)
           (ioutil_WriteFile world_fresh (filepath_Join ''/opt/node'' ''private.key'') [1, 7, 9] os_ModePerm)
        \<in> set (fst (main world_fresh None))"
    by blast
  then have "Call (WriteFile ''/opt/node/private.key'' [1, 7, 9] os_ModePerm) None
     \<in> set (fst (main world_fresh None))"
    by (simp add: world_fresh_sel key_path sample_marshal_key)
  moreover from key_file_mode [of world_fresh None] have "unat os_ModePerm = 511" by simp
  ultimately show ?thesis by (simp add: world_fresh_sel)
qed

text \<open>
  What \<^verbatim>\<open>main\<close> itself does for the persistence of the identity, over two starts in the
  same directory. In the first the key file is absent, a key is generated, serialized and
  written without error. In the second \<^verbatim>\<open>os.Stat\<close> finds the file and \<^verbatim>\<open>ioutil.ReadFile\<close>
  returns what the first run left at the path. The two runs then use the same path, the
  first leaves there the serialization of the key it runs with, and the second runs with
  the decoding of exactly those bytes. That the decoding is the key again is a property
  of the library's \<^verbatim>\<open>crypto.UnmarshalPrivateKey\<close> and \<^verbatim>\<open>crypto.MarshalPrivateKey\<close>, which
  this repository does not contain: here it is the hypothesis \<open>inv\<close>.
\<close>

lemma same_key_after_restart:
  assumes d1: "filepath_Abs_Dir w1 = Inr dir" and d2: "filepath_Abs_Dir w2 = Inr dir"
    and absent: "os_Stat w1 (filepath_Join dir ''private.key'') = Some ErrNotExist"
    and gen: "crypto_GenerateKeyPair w1 Ed25519 (- 1) = Inr key"
    and mar: "crypto_MarshalPrivateKey w1 key = Inr bs"
    and wr: "ioutil_WriteFile w1 (filepath_Join dir ''private.key'') bs os_ModePerm = None"
    and present: "os_Stat w2 (filepath_Join dir ''private.key'') = None"
    and rd: "ioutil_ReadFile w2 (filepath_Join dir ''private.key'') =
               (case written (fst (main w1 given1)) Map.empty (filepath_Join dir ''private.key'') of
                  Some b \<Rightarrow> Inr b | None \<Rightarrow> Inl ErrNotExist)"
    and inv: "\<forall>k b. crypto_MarshalPrivateKey w1 k = Inr b \<longrightarrow> crypto_UnmarshalPrivateKey w2 b = Inr k"
  shows "written (fst (main w1 given1)) Map.empty (filepath_Join dir ''private.key'') = Some bs \<and>
         identities (fst (main w1 given1)) = [key] \<and>
         identities (fst (main w2 given2)) = [key] \<and>
         map node_ID (identities (fst (main w2 given2))) = map node_ID (identities (fst (main w1 given1)))"
proof -
  have 1: "written (fst (main w1 given1)) Map.empty (filepath_Join dir ''private.key'') = Some bs"
    by (simp add: main_generate [OF d1 absent gen mar wr] written_start_node)
  have 2: "identities (fst (main w1 given1)) = [key]"
    by (simp add: main_generate [OF d1 absent gen mar wr] identities_start_node)
  from rd 1 have r: "ioutil_ReadFile w2 (filepath_Join dir ''private.key'') = Inr bs" by simp
  from inv mar have u: "crypto_UnmarshalPrivateKey w2 bs = Inr key" by blast
  from present have a: "\<not> os_IsNotExist (os_Stat w2 (filepath_Join dir ''private.key''))"
    by (simp add: os_IsNotExist_def)
  have 3: "identities (fst (main w2 given2)) = [key]"
    by (rule loaded_calls(3) [OF d2 a r u])
  from 1 2 3 show ?thesis by simp
qed

section \<open>The listen addresses\<close>

lemma start_node_New:
  "Call (New (node_config port key)) (err_of (libp2p_New w (node_config port key)))
     \<in> set (fst (start_node w port key))"
  by (simp add: start_node_def in_checked_call)

lemma main_fresh_New:
  "Call (New (node_config (flag_Int 6666 given) (PrivKey Ed25519 [7, 9]))) None
     \<in> set (fst (main world_fresh given))"
proof -
  have "main world_fresh given =
     emit (Println (LogStart (flag_Int 6666 given))) (emit (Call Abs_Dir None) (
     emit (Call (Stat (filepath_Join ''/opt/node'' ''private.key'')) (Some ErrNotExist)) (
     emit (Call (GenerateKeyPair Ed25519 (- 1)) None) (
     emit (Call (MarshalPrivateKey (PrivKey Ed25519 [7, 9])) None) (
     emit (Call (WriteFile (filepath_Join ''/opt/node'' ''private.key'') [1, 7, 9] os_ModePerm) None) (
     start_node world_fresh (flag_Int 6666 given) (PrivKey Ed25519 [7, 9])))))))"
    by (rule main_generate) (simp_all add: world_fresh_sel sample_marshal_key)
  moreover have "Call (New (node_config (flag_Int 6666 given) (PrivKey Ed25519 [7, 9]))) None
     \<in> set (fst (start_node world_fresh (flag_Int 6666 given) (PrivKey Ed25519 [7, 9])))"
    using start_node_New [of "flag_Int 6666 given" "PrivKey Ed25519 [7, 9]" world_fresh]
    by (simp add: world_fresh_sel)
  ultimately show ?thesis by simp
qed

lemma formatInt_4001: "formatInt 4001 = ''4001''"
  by (simp add: formatInt_def formatUint.simps digit_def)

lemma formatInt_minus_1: "formatInt (- 1) = ''-1''"
  by (simp add: formatInt_def formatUint.simps digit_def)

text \<open>
  C9. The port is the value of the flag, 6666 when the flag is not given. For every value
  \<open>p\<close> of the flag, the options of every \<^verbatim>\<open>libp2p.New\<close> call of \<^verbatim>\<open>main\<close> hold exactly two
  listen addresses, both made from \<open>p\<close>: the TCP address \<^verbatim>\<open>/ip4/0.0.0.0/tcp/<p>\<close> and the
  QUIC address \<^verbatim>\<open>/ip4/0.0.0.0/udp/<p>/quic\<close>; without the flag they are made from 6666.
  The decimal numeral printed into them reads back as \<open>p\<close>.
\<close>

theorem listen_addrs_from_port:
  "flag_Int 6666 None = 6666 \<and> flag_Int 6666 (Some p) = p \<and>
   (\<forall>c r. Call (New c) r \<in> set (fst (main w (Some p))) \<longrightarrow>
      ListenAddrStrings c =
        [''/ip4/0.0.0.0/tcp/'' @ formatInt (sint p),
         ''/ip4/0.0.0.0/udp/'' @ formatInt (sint p) @ ''/quic'']) \<and>
   (\<forall>c r. Call (New c) r \<in> set (fst (main w None)) \<longrightarrow>
      ListenAddrStrings c = [''/ip4/0.0.0.0/tcp/6666'', ''/ip4/0.0.0.0/udp/6666/quic'']) \<and>
   parseInt (formatInt (sint p)) = sint p"
proof (intro conjI allI impI)
  show "flag_Int 6666 None = 6666" by (simp add: flag_Int_def)
  show "flag_Int 6666 (Some p) = p" by (simp add: flag_Int_def)
next
  fix c r
  assume "Call (New c) r \<in> set (fst (main w (Some p)))"
  then obtain k where "c = node_config (flag_Int 6666 (Some p)) k"
    using New_calls by blast
  then show "ListenAddrStrings c =
        [''/ip4/0.0.0.0/tcp/'' @ formatInt (sint p),
         ''/ip4/0.0.0.0/udp/'' @ formatInt (sint p) @ ''/quic'']"
    by (simp add: node_config_def doPrint_tcp doPrint_udp flag_Int_def)
next
  fix c r
  assume "Call (New c) r \<in> set (fst (main w None))"
  then obtain k where "c = node_config (flag_Int 6666 None) k"
    using New_calls by blast
  then show "ListenAddrStrings c = [''/ip4/0.0.0.0/tcp/6666'', ''/ip4/0.0.0.0/udp/6666/quic'']"
    by (simp add: flag_Int_def config_6666)
next
  show "parseInt (formatInt (sint p)) = sint p"
    by (rule parseInt_formatInt)
qed

theorem listen_addrs_from_port_witness:
  "Call (New (node_config 4001 (PrivKey Ed25519 [7, 9]))) None
     \<in> set (fst (main world_fresh (Some 4001))) \<and>
   ListenAddrStrings (node_config 4001 (PrivKey Ed25519 [7, 9])) =
     [''/ip4/0.0.0.0/tcp/4001'', ''/ip4/0.0.0.0/udp/4001/quic''] \<and>
   Call (New (node_config (- 1) (PrivKey Ed25519 [7, 9]))) None
     \<in> set (fst (main world_fresh (Some (- 1)))) \<and>
   ListenAddrStrings (node_config (- 1) (PrivKey Ed25519 [7, 9])) =
     [''/ip4/0.0.0.0/tcp/-1'', ''/ip4/0.0.0.0/udp/-1/quic''] \<and>
   Call (New (node_config 6666 (PrivKey Ed25519 [7, 9]))) None
     \<in> set (fst (main world_fresh None)) \<and>
   ListenAddrStrings (node_config 6666 (PrivKey Ed25519 [7, 9])) =
     [''/ip4/0.0.0.0/tcp/6666'', ''/ip4/0.0.0.0/udp/6666/quic'']"
proof -
  have a: "Call (New (node_config 4001 (PrivKey Ed25519 [7, 9]))) None
     \<in> set (fst (main world_fresh (Some 4001)))"
    using main_fresh_New [of "Some 4001"] by (simp add: flag_Int_def)
  have b: "Call (New (node_config (- 1) (PrivKey Ed25519 [7, 9]))) None
     \<in> set (fst (main world_fresh (Some (- 1))))"
    using main_fresh_New [of "Some (- 1)"] by (simp add: flag_Int_def)
  have c: "Call (New (node_config 6666 (PrivKey Ed25519 [7, 9]))) None
     \<in> set (fst (main world_fresh None))"
    using main_fresh_New [of None] by (simp add: flag_Int_def)
  from listen_addrs_from_port [of 4001 world_fresh] a
  have 1: "ListenAddrStrings (node_config 4001 (PrivKey Ed25519 [7, 9])) =
        [''/ip4/0.0.0.0/tcp/'' @ formatInt (sint (4001 :: go_int)),
         ''/ip4/0.0.0.0/udp/'' @ formatInt (sint (4001 :: go_int)) @ ''/quic'']"
    by blast
  from listen_addrs_from_port [of "- 1" world_fresh] b
  have 2: "ListenAddrStrings (node_config (- 1) (PrivKey Ed25519 [7, 9])) =
        [''/ip4/0.0.0.0/tcp/'' @ formatInt (sint (- 1 :: go_int)),
         ''/ip4/0.0.0.0/udp/'' @ formatInt (sint (- 1 :: go_int)) @ ''/quic'']"
    by blast
  from listen_addrs_from_port [of 0 world_fresh] c
  have 3: "ListenAddrStrings (node_config 6666 (PrivKey Ed25519 [7, 9])) =
     [''/ip4/0.0.0.0/tcp/6666'', ''/ip4/0.0.0.0/udp/6666/quic'']"
    by blast
  from a b c 1 2 3 show ?thesis
    by (simp add: formatInt_4001 formatInt_minus_1)
qed

end
